theory Spec2Isabelle
  imports Complex_Main "HOL-Library.Sublist" "HOL-Library.Monad_Syntax"
begin

section \<open>Mission data types (types/mission.ts)\<close>

text \<open>
  A TypeScript \<open>number\<close> is modelled as a real. The mission model never computes with
  the numbers it is given: it stores them, copies them, and produces the constants
  \<open>0\<close>, \<open>2\<close> and an array length, all of which a double represents exactly.
  The non-finite doubles (\<open>NaN\<close> and the infinities) are outside this model.
\<close>

type_synonym number = real

text \<open>The enum \<open>MavCmd\<close> and its numeric values.\<close>

datatype MavCmd =
    MAV_CMD_NAV_WAYPOINT
  | MAV_CMD_NAV_LOITER_UNLIM
  | MAV_CMD_NAV_LOITER_TURNS
  | MAV_CMD_NAV_LOITER_TIME
  | MAV_CMD_NAV_RETURN_TO_LAUNCH

fun MavCmd_value :: "MavCmd \<Rightarrow> nat" where
  "MavCmd_value MAV_CMD_NAV_WAYPOINT = 16"
| "MavCmd_value MAV_CMD_NAV_LOITER_UNLIM = 17"
| "MavCmd_value MAV_CMD_NAV_LOITER_TURNS = 18"
| "MavCmd_value MAV_CMD_NAV_LOITER_TIME = 19"
| "MavCmd_value MAV_CMD_NAV_RETURN_TO_LAUNCH = 20"

text \<open>The enum \<open>MavFrame\<close> and its numeric values.\<close>

datatype MavFrame =
    MAV_FRAME_GLOBAL
  | MAV_FRAME_GLOBAL_RELATIVE_ALT

fun MavFrame_value :: "MavFrame \<Rightarrow> nat" where
  "MavFrame_value MAV_FRAME_GLOBAL = 0"
| "MavFrame_value MAV_FRAME_GLOBAL_RELATIVE_ALT = 3"

text \<open>The interface \<open>Waypoint\<close>: one MAVLink mission item, \<open>x\<close> the latitude and
  \<open>y\<close> the longitude.\<close>

record Waypoint =
  seq :: number
  frame :: MavFrame
  command :: MavCmd
  current :: bool
  autocontinue :: bool
  param1 :: number
  param2 :: number
  param3 :: number
  param4 :: number
  x :: number
  y :: number
  z :: number

text \<open>The interface \<open>MissionMetadata\<close>; the timestamps are ISO 8601 strings.\<close>

record MissionMetadata =
  name :: string
  createdAt :: string
  updatedAt :: string

text \<open>The interface \<open>Mission\<close>.\<close>

record Mission =
  waypoints :: "Waypoint list"
  currentWaypointIndex :: number
  metadata :: MissionMetadata

section \<open>Mission operations on values\<close>

text \<open>
  \<open>new Date().toISOString()\<close> reads the clock. The reading is an explicit argument
  \<open>now\<close> of the two operations that take one.
\<close>

definition createEmptyMission :: "string \<Rightarrow> Mission" where
  "createEmptyMission now =
     \<lparr> waypoints = [],
       currentWaypointIndex = 0,
       metadata = \<lparr> name = ''USV Mission'', createdAt = now, updatedAt = now \<rparr> \<rparr>"

text \<open>The first parameter is the source's \<open>seq\<close>; the record field has taken that name.\<close>

definition createWaypoint :: "number \<Rightarrow> number \<Rightarrow> number \<Rightarrow> Waypoint" where
  "createWaypoint seq_no lat lon =
     \<lparr> seq = seq_no,
       frame = MAV_FRAME_GLOBAL_RELATIVE_ALT,
       command = MAV_CMD_NAV_WAYPOINT,
       current = False,
       autocontinue = True,
       param1 = 0,
       param2 = 2,
       param3 = 0,
       param4 = 0,
       x = lat,
       y = lon,
       z = 0 \<rparr>"

text \<open>
  The spread \<open>{...mission, waypoints: ..., metadata: {...mission.metadata, updatedAt: ...}}\<close>
  is a record update: every field not named keeps the value it has in \<open>mission\<close>.
\<close>

definition addWaypointToMission :: "string \<Rightarrow> Mission \<Rightarrow> number \<Rightarrow> number \<Rightarrow> Mission" where
  "addWaypointToMission now mission lat lon =
     (let seq_no = of_nat (length (waypoints mission));
          newWaypoint = createWaypoint seq_no lat lon
      in mission
           \<lparr> waypoints := waypoints mission @ [newWaypoint],
             metadata := (metadata mission) \<lparr> updatedAt := now \<rparr> \<rparr>)"

text \<open>\<open>Array.prototype.map\<close> with its index argument: a recursion that carries the index.\<close>

fun map_idx :: "(('a \<times> nat) \<Rightarrow> 'b) \<Rightarrow> nat \<Rightarrow> 'a list \<Rightarrow> 'b list" where
  "map_idx f idx [] = []"
| "map_idx f idx (a # as) = f (a, idx) # map_idx f (Suc idx) as"

definition missionToMavlinkFormat :: "Mission \<Rightarrow> Waypoint list" where
  "missionToMavlinkFormat mission =
     map_idx (\<lambda>(wp, idx). wp \<lparr> current := (idx = 0) \<rparr>) 0 (waypoints mission)"

text \<open>
  Sequential calls, as \<open>handleAddWaypoint\<close> makes them on the mission held in the UI
  state: each call has its own clock reading and its own coordinates.
\<close>

fun addWaypoints :: "Mission \<Rightarrow> (string \<times> number \<times> number) list \<Rightarrow> Mission" where
  "addWaypoints mission [] = mission"
| "addWaypoints mission ((now, lat, lon) # cs) =
     addWaypoints (addWaypointToMission now mission lat lon) cs"

text \<open>The missions that \<open>createEmptyMission\<close> and \<open>addWaypointToMission\<close> can produce.\<close>

inductive reachable :: "Mission \<Rightarrow> bool" where
  empty: "reachable (createEmptyMission now)"
| add: "reachable mission \<Longrightarrow> reachable (addWaypointToMission now mission lat lon)"

section \<open>Mission operations on a store of objects\<close>

text \<open>
  The value-level functions above say what each operation returns. To say that an
  operation leaves the objects it was given untouched, objects need an identity: here a
  store holds every object at an address, an array holds the addresses of its elements
  and a mission holds the addresses of its array and of its metadata. An object literal,
  an array literal and \<open>Array.prototype.map\<close> allocate; the source has no assignment to
  a property or an element of an existing object, so the store has no write operation.
\<close>

type_synonym addr = nat

datatype obj =
    WaypointObj Waypoint
  | ArrayObj "addr list"
  | MetadataObj MissionMetadata
  | MissionObj addr number addr

type_synonym store = "obj list"

text \<open>Allocation puts the new object at the next free address.\<close>

definition alloc :: "obj \<Rightarrow> store \<Rightarrow> addr \<times> store" where
  "alloc ob st = (length st, st @ [ob])"

definition deref :: "store \<Rightarrow> addr \<Rightarrow> obj option" where
  "deref st a = (if a < length st then Some (st ! a) else None)"

text \<open>
  Typed reads. \<open>None\<close> stands for the \<open>TypeError\<close> of reading a property of something
  that is not the object the static type promises.
\<close>

definition get_waypoint :: "store \<Rightarrow> addr \<Rightarrow> Waypoint option" where
  "get_waypoint st a = (case deref st a of Some (WaypointObj w) \<Rightarrow> Some w | _ \<Rightarrow> None)"

definition get_array :: "store \<Rightarrow> addr \<Rightarrow> addr list option" where
  "get_array st a = (case deref st a of Some (ArrayObj es) \<Rightarrow> Some es | _ \<Rightarrow> None)"

definition get_metadata :: "store \<Rightarrow> addr \<Rightarrow> MissionMetadata option" where
  "get_metadata st a = (case deref st a of Some (MetadataObj md) \<Rightarrow> Some md | _ \<Rightarrow> None)"

definition get_mission :: "store \<Rightarrow> addr \<Rightarrow> (addr \<times> number \<times> addr) option" where
  "get_mission st a =
     (case deref st a of Some (MissionObj wa cwi ma) \<Rightarrow> Some (wa, cwi, ma) | _ \<Rightarrow> None)"

text \<open>The value a well-formed object graph stands for.\<close>

fun read_waypoints :: "store \<Rightarrow> addr list \<Rightarrow> Waypoint list option" where
  "read_waypoints st [] = Some []"
| "read_waypoints st (a # as) =
     do { w \<leftarrow> get_waypoint st a;
          ws \<leftarrow> read_waypoints st as;
          Some (w # ws) }"

definition read_waypoint_array :: "store \<Rightarrow> addr \<Rightarrow> Waypoint list option" where
  "read_waypoint_array st a = do { es \<leftarrow> get_array st a; read_waypoints st es }"

definition read_mission :: "store \<Rightarrow> addr \<Rightarrow> Mission option" where
  "read_mission st m =
     do { (wa, cwi, ma) \<leftarrow> get_mission st m;
          ws \<leftarrow> read_waypoint_array st wa;
          md \<leftarrow> get_metadata st ma;
          Some \<lparr> waypoints = ws, currentWaypointIndex = cwi, metadata = md \<rparr> }"

text \<open>\<open>createEmptyMission\<close>: three object literals, no read.\<close>

definition createEmptyMission_st :: "string \<Rightarrow> store \<Rightarrow> addr \<times> store" where
  "createEmptyMission_st now st =
     (let (wa, st1) = alloc (ArrayObj []) st;
          (ma, st2) = alloc (MetadataObj \<lparr> name = ''USV Mission'', createdAt = now, updatedAt = now \<rparr>) st1
      in alloc (MissionObj wa 0 ma) st2)"

text \<open>\<open>createWaypoint\<close>: one object literal.\<close>

definition createWaypoint_st :: "number \<Rightarrow> number \<Rightarrow> number \<Rightarrow> store \<Rightarrow> addr \<times> store" where
  "createWaypoint_st seq_no lat lon st = alloc (WaypointObj (createWaypoint seq_no lat lon)) st"

text \<open>
  \<open>addWaypointToMission\<close>: reads the mission and the length of its array, allocates the
  new waypoint, then a new array that holds the old element addresses and the new one,
  then a copy of the metadata with \<open>updatedAt\<close> replaced, then the new mission object.
\<close>

definition addWaypointToMission_st ::
    "string \<Rightarrow> addr \<Rightarrow> number \<Rightarrow> number \<Rightarrow> store \<Rightarrow> (addr \<times> store) option" where
  "addWaypointToMission_st now mission lat lon st =
     do { (wa, cwi, ma) \<leftarrow> get_mission st mission;
          es \<leftarrow> get_array st wa;
          let seq_no = of_nat (length es);
          let (newWaypoint, st1) = createWaypoint_st seq_no lat lon st;
          let (wa', st2) = alloc (ArrayObj (es @ [newWaypoint])) st1;
          md \<leftarrow> get_metadata st2 ma;
          let (ma', st3) = alloc (MetadataObj (md \<lparr> updatedAt := now \<rparr>)) st2;
          Some (alloc (MissionObj wa' cwi ma') st3) }"

text \<open>
  The callback of \<open>map\<close> in \<open>missionToMavlinkFormat\<close>, run over the element addresses:
  each step reads one waypoint object and allocates its copy with \<open>current\<close> replaced.
\<close>

fun map_idx_st :: "nat \<Rightarrow> addr list \<Rightarrow> store \<Rightarrow> (addr list \<times> store) option" where
  "map_idx_st idx [] st = Some ([], st)"
| "map_idx_st idx (a # as) st =
     do { wp \<leftarrow> get_waypoint st a;
          let (r, st1) = alloc (WaypointObj (wp \<lparr> current := (idx = 0) \<rparr>)) st;
          (rs, st2) \<leftarrow> map_idx_st (Suc idx) as st1;
          Some (r # rs, st2) }"

definition missionToMavlinkFormat_st :: "addr \<Rightarrow> store \<Rightarrow> (addr \<times> store) option" where
  "missionToMavlinkFormat_st mission st =
     do { (wa, cwi, ma) \<leftarrow> get_mission st mission;
          es \<leftarrow> get_array st wa;
          (rs, st1) \<leftarrow> map_idx_st 0 es st;
          Some (alloc (ArrayObj rs) st1) }"

text \<open>
  Laying a \<open>Mission\<close> value out in the store, one fresh object per waypoint: every value
  of the type is the reading of some store, so a statement about all well-formed stores
  is a statement about all missions.
\<close>

fun store_waypoints :: "Waypoint list \<Rightarrow> store \<Rightarrow> addr list \<times> store" where
  "store_waypoints [] st = ([], st)"
| "store_waypoints (w # ws) st =
     (let (a, st1) = alloc (WaypointObj w) st;
          (es, st2) = store_waypoints ws st1
      in (a # es, st2))"

definition store_mission :: "Mission \<Rightarrow> store \<Rightarrow> addr \<times> store" where
  "store_mission M st =
     (let (es, st1) = store_waypoints (waypoints M) st;
          (wa, st2) = alloc (ArrayObj es) st1;
          (ma, st3) = alloc (MetadataObj (metadata M)) st2
      in alloc (MissionObj wa (currentWaypointIndex M) ma) st3)"

section \<open>The sequencing invariant and a sample mission\<close>

text \<open>
  The invariant the \<open>Waypoint\<close> interface documents for \<open>seq\<close> (0-based, contiguous):
  the sequence numbers of a waypoint array are \<open>0, 1, ..., N - 1\<close> in array order.
\<close>

definition seq_contiguous :: "Waypoint list \<Rightarrow> bool" where
  "seq_contiguous ws = (map seq ws = map of_nat [0..<length ws])"

text \<open>
  A store that holds one mission of two waypoints, at address 4, and the value it stands
  for. Both stored waypoints carry \<open>current = true\<close>, which no constructor of the model
  produces, so that the sample also covers what \<open>missionToMavlinkFormat\<close> overwrites.
\<close>

definition example_store :: store where
  "example_store =
     [ WaypointObj ((createWaypoint 0 15.4909 73.8278) \<lparr> current := True \<rparr>),
       WaypointObj ((createWaypoint 1 15.5 73.9) \<lparr> current := True \<rparr>),
       ArrayObj [0, 1],
       MetadataObj \<lparr> name = ''USV Mission'', createdAt = ''t0'', updatedAt = ''t2'' \<rparr>,
       MissionObj 2 0 3 ]"

definition example_mission :: Mission where
  "example_mission =
     \<lparr> waypoints = [ (createWaypoint 0 15.4909 73.8278) \<lparr> current := True \<rparr>,
                     (createWaypoint 1 15.5 73.9) \<lparr> current := True \<rparr> ],
       currentWaypointIndex = 0,
       metadata = \<lparr> name = ''USV Mission'', createdAt = ''t0'', updatedAt = ''t2'' \<rparr> \<rparr>"



section \<open>Facts about the value-level operations\<close>

lemma length_map_idx: "length (map_idx f k as) = length as"
  by (induction as arbitrary: k) simp_all

lemma nth_map_idx: "i < length as \<Longrightarrow> map_idx f k as ! i = f (as ! i, k + i)"
proof (induction as arbitrary: k i)
  case Nil
  then show ?case by simp
next
  case (Cons a as)
  then show ?case by (cases i) simp_all
qed

lemma waypoints_addWaypointToMission:
  "waypoints (addWaypointToMission now m lat lon) =
     waypoints m @ [createWaypoint (of_nat (length (waypoints m))) lat lon]"
  by (simp add: addWaypointToMission_def Let_def)

lemma length_waypoints_addWaypoints:
  "length (waypoints (addWaypoints m cs)) = length (waypoints m) + length cs"
  by (induction m cs rule: addWaypoints.induct) (simp_all add: waypoints_addWaypointToMission)

lemma nth_waypoints_addWaypoints_old:
  "i < length (waypoints m) \<Longrightarrow> waypoints (addWaypoints m cs) ! i = waypoints m ! i"
  by (induction m cs rule: addWaypoints.induct)
     (simp_all add: waypoints_addWaypointToMission nth_append)

lemma nth_waypoints_addWaypoints_new:
  "i < length cs \<Longrightarrow>
     waypoints (addWaypoints m cs) ! (length (waypoints m) + i) =
       createWaypoint (of_nat (length (waypoints m) + i)) (fst (snd (cs ! i))) (snd (snd (cs ! i)))"
proof (induction m cs arbitrary: i rule: addWaypoints.induct)
  case (1 mission)
  then show ?case by simp
next
  case (2 mission now lat lon cs)
  show ?case
  proof (cases i)
    case 0
    then show ?thesis
      by (simp add: nth_waypoints_addWaypoints_old waypoints_addWaypointToMission)
  next
    case (Suc j)
    with "2.prems" have "j < length cs" by simp
    from "2.IH" [OF this] Suc show ?thesis
      by (simp add: waypoints_addWaypointToMission)
  qed
qed

lemma waypoints_createEmptyMission: "waypoints (createEmptyMission now) = []"
  by (simp add: createEmptyMission_def)

lemma nth_missionToMavlinkFormat:
  "i < length (waypoints M) \<Longrightarrow>
     missionToMavlinkFormat M ! i = (waypoints M ! i) \<lparr> current := (i = 0) \<rparr>"
  by (simp add: missionToMavlinkFormat_def nth_map_idx)

lemma length_missionToMavlinkFormat:
  "length (missionToMavlinkFormat M) = length (waypoints M)"
  by (simp add: missionToMavlinkFormat_def length_map_idx)






lemma reachable_seq_contiguous: "reachable M \<Longrightarrow> seq_contiguous (waypoints M)"
proof (induction rule: reachable.induct)
  case (empty now)
  show ?case by (simp add: createEmptyMission_def seq_contiguous_def)
next
  case (add mission now lat lon)
  then show ?case
    by (simp add: waypoints_addWaypointToMission createWaypoint_def seq_contiguous_def)
qed

lemma reachable_addWaypoints: "reachable m \<Longrightarrow> reachable (addWaypoints m cs)"
  by (induction m cs rule: addWaypoints.induct) (simp_all add: reachable.add)

section \<open>Facts about the store-level operations\<close>

text \<open>
  Every operation only allocates, so the store it returns extends the store it was given,
  and every read of the old store gives the same answer in the new one.
\<close>

lemma deref_append: "deref st a = Some ob \<Longrightarrow> deref (st @ ext) a = Some ob"
  by (auto simp: deref_def nth_append split: if_splits)

lemma deref_prefix: "prefix st st' \<Longrightarrow> deref st a = Some ob \<Longrightarrow> deref st' a = Some ob"
  by (auto simp: prefix_def deref_append)

lemma get_waypoint_prefix:
  "prefix st st' \<Longrightarrow> get_waypoint st a = Some w \<Longrightarrow> get_waypoint st' a = Some w"
  by (auto simp: get_waypoint_def dest: deref_prefix split: option.splits obj.splits)

lemma get_array_prefix:
  "prefix st st' \<Longrightarrow> get_array st a = Some es \<Longrightarrow> get_array st' a = Some es"
  by (auto simp: get_array_def dest: deref_prefix split: option.splits obj.splits)

lemma get_metadata_prefix:
  "prefix st st' \<Longrightarrow> get_metadata st a = Some md \<Longrightarrow> get_metadata st' a = Some md"
  by (auto simp: get_metadata_def dest: deref_prefix split: option.splits obj.splits)

lemma get_mission_prefix:
  "prefix st st' \<Longrightarrow> get_mission st a = Some t \<Longrightarrow> get_mission st' a = Some t"
  by (auto simp: get_mission_def dest: deref_prefix split: option.splits obj.splits)

lemma read_waypoints_prefix:
  "prefix st st' \<Longrightarrow> read_waypoints st es = Some ws \<Longrightarrow> read_waypoints st' es = Some ws"
proof (induction es arbitrary: ws)
  case Nil
  then show ?case by simp
next
  case (Cons a es)
  from Cons.prems(2) obtain w ws0 where
    w: "get_waypoint st a = Some w" and ws0: "read_waypoints st es = Some ws0" and
    ws: "ws = w # ws0"
    by (auto split: bind_splits)
  from Cons.IH [OF Cons.prems(1) ws0] get_waypoint_prefix [OF Cons.prems(1) w] ws
  show ?case by simp
qed

lemma read_waypoint_array_prefix:
  "prefix st st' \<Longrightarrow> read_waypoint_array st a = Some ws \<Longrightarrow> read_waypoint_array st' a = Some ws"
proof -
  assume p: "prefix st st'" and r: "read_waypoint_array st a = Some ws"
  from r obtain es where ga: "get_array st a = Some es" and rw: "read_waypoints st es = Some ws"
    by (auto simp: read_waypoint_array_def split: bind_splits)
  from get_array_prefix [OF p ga] read_waypoints_prefix [OF p rw]
  show ?thesis by (simp add: read_waypoint_array_def)
qed

lemma read_mission_prefix:
  assumes "prefix st st'" and "read_mission st m = Some M"
  shows "read_mission st' m = Some M"
proof -
  from assms(2) obtain wa cwi ma ws md where
    g: "get_mission st m = Some (wa, cwi, ma)" and
    r: "read_waypoint_array st wa = Some ws" and
    d: "get_metadata st ma = Some md" and
    M: "M = \<lparr> waypoints = ws, currentWaypointIndex = cwi, metadata = md \<rparr>"
    by (auto simp: read_mission_def split: bind_splits)
  from get_mission_prefix [OF assms(1) g] read_waypoint_array_prefix [OF assms(1) r]
    get_metadata_prefix [OF assms(1) d] M
  show ?thesis by (simp add: read_mission_def)
qed

lemma alloc_prefix: "alloc ob st = (a, st') \<Longrightarrow> prefix st st'"
  by (auto simp: alloc_def)

lemma alloc_deref: "alloc ob st = (a, st') \<Longrightarrow> deref st' a = Some ob"
  by (auto simp: alloc_def deref_def)

lemma alloc_fresh: "alloc ob st = (a, st') \<Longrightarrow> a = length st \<and> length st' = Suc (length st)"
  by (auto simp: alloc_def)

lemma read_waypoints_length: "read_waypoints st es = Some ws \<Longrightarrow> length ws = length es"
  by (induction es arbitrary: ws) (auto split: bind_splits)

lemma map_idx_st_refines:
  "read_waypoints st es = Some ws \<Longrightarrow>
   \<exists>rs st'. map_idx_st k es st = Some (rs, st') \<and> prefix st st' \<and>
     read_waypoints st' rs = Some (map_idx (\<lambda>(wp, idx). wp \<lparr> current := (idx = 0) \<rparr>) k ws) \<and>
     (\<forall>r \<in> set rs. length st \<le> r)"
proof (induction es arbitrary: k st ws)
  case Nil
  then show ?case by simp
next
  case (Cons a es)
  from Cons.prems obtain w ws0 where
    w: "get_waypoint st a = Some w" and ws0: "read_waypoints st es = Some ws0" and
    ws: "ws = w # ws0"
    by (auto split: bind_splits)
  obtain r st1 where al: "alloc (WaypointObj (w \<lparr> current := (k = 0) \<rparr>)) st = (r, st1)"
    by (cases "alloc (WaypointObj (w \<lparr> current := (k = 0) \<rparr>)) st")
  have p1: "prefix st st1" by (rule alloc_prefix [OF al])
  have "read_waypoints st1 es = Some ws0" by (rule read_waypoints_prefix [OF p1 ws0])
  from Cons.IH [OF this, of "Suc k"] obtain rs st2 where
    m: "map_idx_st (Suc k) es st1 = Some (rs, st2)" and p2: "prefix st1 st2" and
    rd: "read_waypoints st2 rs = Some (map_idx (\<lambda>(wp, idx). wp \<lparr> current := (idx = 0) \<rparr>) (Suc k) ws0)" and
    fr: "\<forall>r \<in> set rs. length st1 \<le> r"
    by blast
  have gr: "get_waypoint st2 r = Some (w \<lparr> current := (k = 0) \<rparr>)"
    using alloc_deref [OF al] p2 by (auto simp: get_waypoint_def dest: deref_prefix)
  have "map_idx_st k (a # es) st = Some (r # rs, st2)"
    using w al m by simp
  moreover have "prefix st st2" using p1 p2 by (rule prefix_order.trans)
  moreover have "read_waypoints st2 (r # rs) =
      Some (map_idx (\<lambda>(wp, idx). wp \<lparr> current := (idx = 0) \<rparr>) k ws)"
    using gr rd ws by simp
  moreover have "\<forall>r' \<in> set (r # rs). length st \<le> r'"
    using fr alloc_fresh [OF al] by auto
  ultimately show ?case by blast
qed

lemma missionToMavlinkFormat_st_refines:
  assumes "read_mission st m = Some M"
  shows "\<exists>a st'. missionToMavlinkFormat_st m st = Some (a, st') \<and> prefix st st' \<and>
           read_waypoint_array st' a = Some (missionToMavlinkFormat M) \<and> length st \<le> a"
proof -
  from assms obtain wa cwi ma es ws where
    g: "get_mission st m = Some (wa, cwi, ma)" and
    ga: "get_array st wa = Some es" and
    r: "read_waypoints st es = Some ws" and
    M: "waypoints M = ws"
    by (auto simp: read_mission_def read_waypoint_array_def split: bind_splits)
  from map_idx_st_refines [OF r, of 0] obtain rs st1 where
    m: "map_idx_st 0 es st = Some (rs, st1)" and p1: "prefix st st1" and
    rd: "read_waypoints st1 rs = Some (map_idx (\<lambda>(wp, idx). wp \<lparr> current := (idx = 0) \<rparr>) 0 ws)"
    by blast
  obtain a st2 where al: "alloc (ArrayObj rs) st1 = (a, st2)"
    by (cases "alloc (ArrayObj rs) st1")
  have p2: "prefix st1 st2" by (rule alloc_prefix [OF al])
  have "missionToMavlinkFormat_st m st = Some (a, st2)"
    using g ga m al by (simp add: missionToMavlinkFormat_st_def)
  moreover have "prefix st st2" using p1 p2 by (rule prefix_order.trans)
  moreover have "read_waypoint_array st2 a = Some (missionToMavlinkFormat M)"
    using alloc_deref [OF al] read_waypoints_prefix [OF p2 rd] M
    by (simp add: read_waypoint_array_def get_array_def missionToMavlinkFormat_def)
  moreover have "length st \<le> a"
    using alloc_fresh [OF al] p1 by (auto simp: prefix_def)
  ultimately show ?thesis by blast
qed

lemma store_waypoints_reads:
  "store_waypoints ws st = (es, st') \<Longrightarrow> prefix st st' \<and> read_waypoints st' es = Some ws"
proof (induction ws arbitrary: st es st')
  case Nil
  then show ?case by simp
next
  case (Cons w ws)
  obtain a st1 where al: "alloc (WaypointObj w) st = (a, st1)"
    by (cases "alloc (WaypointObj w) st")
  obtain es0 st2 where rec: "store_waypoints ws st1 = (es0, st2)"
    by (cases "store_waypoints ws st1")
  from Cons.prems al rec have es: "es = a # es0" and st': "st' = st2" by simp_all
  from Cons.IH [OF rec] have p2: "prefix st1 st2" and r: "read_waypoints st2 es0 = Some ws"
    by simp_all
  have p1: "prefix st st1" by (rule alloc_prefix [OF al])
  have "get_waypoint st2 a = Some w"
    using alloc_deref [OF al] p2 by (auto simp: get_waypoint_def dest: deref_prefix)
  with r es st' p1 p2 show ?case by (auto intro: prefix_order.trans)
qed

lemma store_mission_reads:
  assumes "store_mission M st = (m, st')"
  shows "prefix st st' \<and> read_mission st' m = Some M"
proof -
  obtain es st1 where sw: "store_waypoints (waypoints M) st = (es, st1)"
    by (cases "store_waypoints (waypoints M) st")
  from store_waypoints_reads [OF sw] have p1: "prefix st st1"
    and r: "read_waypoints st1 es = Some (waypoints M)" by simp_all
  define st2 where "st2 = st1 @ [ArrayObj es]"
  define st3 where "st3 = st2 @ [MetadataObj (metadata M)]"
  define st4 where "st4 = st3 @ [MissionObj (length st1) (currentWaypointIndex M) (length st2)]"
  from assms sw have m: "m = length st3" and st': "st' = st4"
    by (simp_all add: store_mission_def alloc_def st2_def st3_def st4_def)
  have p14: "prefix st1 st4" by (simp add: st2_def st3_def st4_def)
  have "get_mission st4 (length st3) = Some (length st1, currentWaypointIndex M, length st2)"
    by (simp add: get_mission_def deref_def st4_def)
  moreover have "get_metadata st4 (length st2) = Some (metadata M)"
    by (simp add: get_metadata_def deref_def st4_def st3_def nth_append)
  moreover have "get_array st4 (length st1) = Some es"
    by (simp add: get_array_def deref_def st4_def st3_def st2_def nth_append)
  moreover have "read_waypoints st4 es = Some (waypoints M)"
    by (rule read_waypoints_prefix [OF p14 r])
  ultimately have "read_mission st4 (length st3) = Some M"
    by (simp add: read_mission_def read_waypoint_array_def)
  moreover have "prefix st st4" using p1 p14 by (rule prefix_order.trans)
  ultimately show ?thesis using m st' by simp
qed

lemma every_mission_has_a_store: "\<exists>st m. read_mission st m = Some M"
proof -
  obtain m st' where "store_mission M [] = (m, st')" by (cases "store_mission M []")
  from store_mission_reads [OF this] show ?thesis by blast
qed

text \<open>Each store-level operation computes the value its value-level counterpart returns.\<close>

lemma addWaypointToMission_st_refines:
  assumes "read_mission st m = Some M"
  shows "\<exists>m' st'. addWaypointToMission_st now m lat lon st = Some (m', st') \<and> prefix st st' \<and>
           read_mission st' m' = Some (addWaypointToMission now M lat lon) \<and> length st \<le> m'"
proof -
  from assms obtain wa cwi ma es ws md where
    g: "get_mission st m = Some (wa, cwi, ma)" and
    ga: "get_array st wa = Some es" and
    r: "read_waypoints st es = Some ws" and
    d: "get_metadata st ma = Some md" and
    M: "M = \<lparr> waypoints = ws, currentWaypointIndex = cwi, metadata = md \<rparr>"
    by (auto simp: read_mission_def read_waypoint_array_def split: bind_splits)
  define nw where "nw = createWaypoint (of_nat (length es)) lat lon"
  define st1 where "st1 = st @ [WaypointObj nw]"
  define st2 where "st2 = st1 @ [ArrayObj (es @ [length st])]"
  define st3 where "st3 = st2 @ [MetadataObj (md \<lparr> updatedAt := now \<rparr>)]"
  define st4 where "st4 = st3 @ [MissionObj (length st1) cwi (length st2)]"
  have d2: "get_metadata st2 ma = Some md"
    by (rule get_metadata_prefix [OF _ d]) (simp add: st1_def st2_def)
  have run: "addWaypointToMission_st now m lat lon st = Some (length st3, st4)"
    using g ga d2
    by (simp add: addWaypointToMission_st_def createWaypoint_st_def alloc_def Let_def
          nw_def st1_def st2_def st3_def st4_def)
  have p: "prefix st st4"
    by (simp add: st1_def st2_def st3_def st4_def)
  have p1: "prefix st st1" by (simp add: st1_def)
  have p14: "prefix st1 st4" by (simp add: st2_def st3_def st4_def)
  have gm: "get_mission st4 (length st3) = Some (length st1, cwi, length st2)"
    by (simp add: get_mission_def deref_def st4_def)
  have gmd: "get_metadata st4 (length st2) = Some (md \<lparr> updatedAt := now \<rparr>)"
    by (simp add: get_metadata_def deref_def st4_def st3_def nth_append)
  have gar: "get_array st4 (length st1) = Some (es @ [length st])"
    by (simp add: get_array_def deref_def st4_def st3_def st2_def nth_append)
  have gnw: "get_waypoint st4 (length st) = Some nw"
    by (simp add: get_waypoint_def deref_def st4_def st3_def st2_def st1_def nth_append)
  have old: "read_waypoints st4 es = Some ws"
    by (rule read_waypoints_prefix [OF p r])
  have app: "read_waypoints st4 (es @ [length st]) = Some (ws @ [nw])"
    using old gnw
  proof (induction es arbitrary: ws)
    case Nil
    then show ?case by simp
  next
    case (Cons a es)
    from Cons.prems(1) obtain w ws0 where
      "get_waypoint st4 a = Some w" "read_waypoints st4 es = Some ws0" "ws = w # ws0"
      by (auto split: bind_splits)
    with Cons.IH [OF _ Cons.prems(2)] show ?case by simp
  qed
  have len: "length ws = length es" by (rule read_waypoints_length [OF r])
  have "read_mission st4 (length st3) = Some (addWaypointToMission now M lat lon)"
    using gm gar app gmd len
    by (simp add: read_mission_def read_waypoint_array_def addWaypointToMission_def M nw_def)
  moreover have "length st \<le> length st3" by (simp add: st1_def st2_def st3_def)
  ultimately show ?thesis using run p by blast
qed

lemma createEmptyMission_st_refines:
  "createEmptyMission_st now st = (m, st') \<Longrightarrow>
     prefix st st' \<and> read_mission st' m = Some (createEmptyMission now) \<and> length st \<le> m"
  by (auto simp: createEmptyMission_st_def alloc_def read_mission_def read_waypoint_array_def
        get_mission_def get_array_def get_metadata_def deref_def nth_append createEmptyMission_def)

lemma createWaypoint_st_refines:
  "createWaypoint_st s lat lon st = (a, st') \<Longrightarrow>
     prefix st st' \<and> get_waypoint st' a = Some (createWaypoint s lat lon) \<and> length st \<le> a"
  by (auto simp: createWaypoint_st_def alloc_def get_waypoint_def deref_def)

section \<open>Verified properties of the mission model\<close>

text \<open>
  C1. A mission built by \<open>N\<close> sequential calls of \<open>addWaypointToMission\<close>, starting
  from \<open>createEmptyMission()\<close>, has \<open>N\<close> waypoints, and the waypoint at index \<open>i\<close> has
  \<open>seq = i\<close>, for every \<open>i < N\<close>.
\<close>

theorem sequential_adds_number_seq_from_zero:
  "length (waypoints (addWaypoints (createEmptyMission t0) cs)) = length cs \<and>
   (\<forall>i < length cs. seq (waypoints (addWaypoints (createEmptyMission t0) cs) ! i) = of_nat i)"
  using nth_waypoints_addWaypoints_new [of _ cs "createEmptyMission t0"]
  by (simp add: length_waypoints_addWaypoints waypoints_createEmptyMission createWaypoint_def)

theorem sequential_adds_number_seq_from_zero_witness:
  "length (waypoints (addWaypoints (createEmptyMission ''t0'')
       [(''t1'', 15.4909, 73.8278), (''t2'', 15.5, 73.9), (''t3'', 15.6, 74)])) = 3 \<and>
   (2::nat) < 3 \<and>
   seq (waypoints (addWaypoints (createEmptyMission ''t0'')
       [(''t1'', 15.4909, 73.8278), (''t2'', 15.5, 73.9), (''t3'', 15.6, 74)]) ! 2) = 2"
  using sequential_adds_number_seq_from_zero
    [of "''t0''" "[(''t1'', 15.4909, 73.8278), (''t2'', 15.5, 73.9), (''t3'', 15.6, 74)]"]
  by simp

text \<open>
  C2. For every mission \<open>M\<close>, \<open>missionToMavlinkFormat\<close> returns an array as long as
  \<open>M.waypoints\<close>; its element at index \<open>i\<close> is the waypoint of \<open>M\<close> at index \<open>i\<close>
  with \<open>current\<close> replaced by \<open>i = 0\<close>, whatever \<open>current\<close> held, and every other field
  kept. The call changes no object that existed before it: the store afterwards extends
  the store before, and \<open>M\<close> reads as it did.
\<close>

theorem missionToMavlinkFormat_marks_first:
  assumes "read_mission st m = Some M"
  shows "\<exists>a st'. missionToMavlinkFormat_st m st = Some (a, st') \<and>
           read_waypoint_array st' a = Some (missionToMavlinkFormat M) \<and>
           length (missionToMavlinkFormat M) = length (waypoints M) \<and>
           (\<forall>i < length (waypoints M).
              missionToMavlinkFormat M ! i = (waypoints M ! i) \<lparr> current := (i = 0) \<rparr>) \<and>
           prefix st st' \<and> read_mission st' m = Some M"
proof -
  from missionToMavlinkFormat_st_refines [OF assms] obtain a st' where
    run: "missionToMavlinkFormat_st m st = Some (a, st')" and p: "prefix st st'" and
    out: "read_waypoint_array st' a = Some (missionToMavlinkFormat M)"
    by blast
  have "read_mission st' m = Some M" by (rule read_mission_prefix [OF p assms])
  with run p out show ?thesis
    by (simp add: length_missionToMavlinkFormat nth_missionToMavlinkFormat)
qed

theorem missionToMavlinkFormat_marks_first_witness:
  "read_mission example_store 4 = Some example_mission \<and>
   (\<exists>a st'. missionToMavlinkFormat_st 4 example_store = Some (a, st') \<and>
      read_waypoint_array st' a = Some (missionToMavlinkFormat example_mission) \<and>
      prefix example_store st' \<and> read_mission st' 4 = Some example_mission) \<and>
   map current (waypoints example_mission) = [True, True] \<and>
   current (missionToMavlinkFormat example_mission ! 0) = True \<and>
   current (missionToMavlinkFormat example_mission ! 1) = False"
proof -
  have h: "read_mission example_store 4 = Some example_mission"
    by (simp add: read_mission_def read_waypoint_array_def get_mission_def get_array_def
        get_metadata_def get_waypoint_def deref_def example_store_def example_mission_def)
  have l: "length (waypoints example_mission) = 2" by (simp add: example_mission_def)
  have c: "map current (waypoints example_mission) = [True, True]"
    by (simp add: example_mission_def)
  from missionToMavlinkFormat_marks_first [OF h] obtain a st' where
    r: "missionToMavlinkFormat_st 4 example_store = Some (a, st')"
       "read_waypoint_array st' a = Some (missionToMavlinkFormat example_mission)"
       "prefix example_store st'" "read_mission st' 4 = Some example_mission" and
    n: "\<forall>i < length (waypoints example_mission).
          missionToMavlinkFormat example_mission ! i =
            (waypoints example_mission ! i) \<lparr> current := (i = 0) \<rparr>"
    by blast
  from n l have "current (missionToMavlinkFormat example_mission ! 0) = True"
    and "current (missionToMavlinkFormat example_mission ! 1) = False"
    by simp_all
  with h r c show ?thesis by blast
qed




text \<open>
  C4. \<open>addWaypointToMission\<close> changes no object of its input: the store afterwards
  extends the store before and the input mission reads as it did. In the mission it
  returns, the new (last) waypoint has \<open>seq\<close> equal to the input's waypoint count,
  \<open>metadata.updatedAt\<close> is the clock reading of the call, and \<open>metadata.name\<close>,
  \<open>metadata.createdAt\<close> and \<open>currentWaypointIndex\<close> are those of the input.
\<close>

theorem addWaypointToMission_frame:
  assumes "read_mission st m = Some M"
  shows "\<exists>m' st' M'. addWaypointToMission_st now m lat lon st = Some (m', st') \<and>
           prefix st st' \<and> read_mission st' m = Some M \<and>
           read_mission st' m' = Some M' \<and> M' = addWaypointToMission now M lat lon \<and>
           seq (last (waypoints M')) = of_nat (length (waypoints M)) \<and>
           updatedAt (metadata M') = now \<and>
           name (metadata M') = name (metadata M) \<and>
           createdAt (metadata M') = createdAt (metadata M) \<and>
           currentWaypointIndex M' = currentWaypointIndex M"
proof -
  from addWaypointToMission_st_refines [OF assms, of now lat lon] obtain m' st' where
    run: "addWaypointToMission_st now m lat lon st = Some (m', st')" and p: "prefix st st'" and
    new: "read_mission st' m' = Some (addWaypointToMission now M lat lon)"
    by blast
  have "read_mission st' m = Some M" by (rule read_mission_prefix [OF p assms])
  with run p new show ?thesis
    by (simp add: addWaypointToMission_def createWaypoint_def Let_def)
qed

theorem addWaypointToMission_frame_witness:
  "read_mission example_store 4 = Some example_mission \<and>
   (\<exists>m' st' M'. addWaypointToMission_st ''t3'' 4 15.6 74 example_store = Some (m', st') \<and>
      prefix example_store st' \<and> read_mission st' 4 = Some example_mission \<and>
      read_mission st' m' = Some M' \<and>
      seq (last (waypoints M')) = 2 \<and> updatedAt (metadata M') = ''t3'' \<and>
      name (metadata M') = ''USV Mission'' \<and> createdAt (metadata M') = ''t0'' \<and>
      currentWaypointIndex M' = 0)"
proof -
  have h: "read_mission example_store 4 = Some example_mission"
    by (simp add: read_mission_def read_waypoint_array_def get_mission_def get_array_def
        get_metadata_def get_waypoint_def deref_def example_store_def example_mission_def)
  have e: "length (waypoints example_mission) = 2" "name (metadata example_mission) = ''USV Mission''"
    "createdAt (metadata example_mission) = ''t0''" "currentWaypointIndex example_mission = 0"
    by (simp_all add: example_mission_def)
  from addWaypointToMission_frame [OF h, of "''t3''" "15.6" 74] obtain m' st' M' where
    "addWaypointToMission_st ''t3'' 4 15.6 74 example_store = Some (m', st')"
    "prefix example_store st'" "read_mission st' 4 = Some example_mission"
    "read_mission st' m' = Some M'"
    "seq (last (waypoints M')) = of_nat (length (waypoints example_mission))"
    "updatedAt (metadata M') = ''t3''"
    "name (metadata M') = name (metadata example_mission)"
    "createdAt (metadata M') = createdAt (metadata example_mission)"
    "currentWaypointIndex M' = currentWaypointIndex example_mission"
    by blast
  with h e show ?thesis by auto
qed

text \<open>
  C5. \<open>createWaypoint(seq, lat, lon)\<close> returns a waypoint with the relative-altitude
  frame, the navigate-to-waypoint command, \<open>current = false\<close>, \<open>autocontinue = true\<close>,
  \<open>param1 = 0\<close>, \<open>param2 = 2\<close>, \<open>param3 = 0\<close>, \<open>param4 = 0\<close>, \<open>z = 0\<close>, and with
  \<open>seq\<close>, \<open>x\<close> and \<open>y\<close> exactly the \<open>seq\<close>, \<open>lat\<close> and \<open>lon\<close> it was given, whatever
  their values.
\<close>

theorem createWaypoint_defaults:
  "frame (createWaypoint s lat lon) = MAV_FRAME_GLOBAL_RELATIVE_ALT \<and>
   command (createWaypoint s lat lon) = MAV_CMD_NAV_WAYPOINT \<and>
   current (createWaypoint s lat lon) = False \<and>
   autocontinue (createWaypoint s lat lon) = True \<and>
   param1 (createWaypoint s lat lon) = 0 \<and>
   param2 (createWaypoint s lat lon) = 2 \<and>
   param3 (createWaypoint s lat lon) = 0 \<and>
   param4 (createWaypoint s lat lon) = 0 \<and>
   z (createWaypoint s lat lon) = 0 \<and>
   seq (createWaypoint s lat lon) = s \<and>
   x (createWaypoint s lat lon) = lat \<and>
   y (createWaypoint s lat lon) = lon"
  by (simp add: createWaypoint_def)

text \<open>
  C6. After building a mission from the empty one by one \<open>addWaypointToMission\<close> call per
  coordinate pair \<open>(lat_i, lon_i)\<close>, the waypoint at index \<open>i\<close> has \<open>x = lat_i\<close> and
  \<open>y = lon_i\<close>, for every \<open>i\<close>.
\<close>

theorem coordinates_round_trip:
  "\<forall>i < length cs.
     x (waypoints (addWaypoints (createEmptyMission t0) cs) ! i) = fst (snd (cs ! i)) \<and>
     y (waypoints (addWaypoints (createEmptyMission t0) cs) ! i) = snd (snd (cs ! i))"
  using nth_waypoints_addWaypoints_new [of _ cs "createEmptyMission t0"]
  by (simp add: waypoints_createEmptyMission createWaypoint_def)

theorem coordinates_round_trip_witness:
  "(1::nat) < 2 \<and>
   x (waypoints (addWaypoints (createEmptyMission ''t0'')
        [(''t1'', 15.4909, 73.8278), (''t2'', -33.5, 151.25)]) ! 1) = -33.5 \<and>
   y (waypoints (addWaypoints (createEmptyMission ''t0'')
        [(''t1'', 15.4909, 73.8278), (''t2'', -33.5, 151.25)]) ! 1) = 151.25"
  using coordinates_round_trip
    [of "[(''t1'', 15.4909, 73.8278), (''t2'', -33.5, 151.25)]" "''t0''"]
  by simp

text \<open>
  C7. Every waypoint of every mission reachable from \<open>createEmptyMission()\<close> by
  \<open>addWaypointToMission\<close> calls has \<open>current = false\<close>.
\<close>

theorem reachable_current_false:
  "reachable M \<Longrightarrow> \<forall>w \<in> set (waypoints M). current w = False"
proof (induction rule: reachable.induct)
  case (empty now)
  show ?case by (simp add: createEmptyMission_def)
next
  case (add mission now lat lon)
  then show ?case
    by (simp add: waypoints_addWaypointToMission createWaypoint_def)
qed

theorem reachable_current_false_witness:
  "reachable (addWaypointToMission ''t1'' (createEmptyMission ''t0'') 15.4909 73.8278) \<and>
   map current (waypoints (addWaypointToMission ''t1'' (createEmptyMission ''t0'') 15.4909 73.8278))
     = [False]"
proof -
  have r: "reachable (addWaypointToMission ''t1'' (createEmptyMission ''t0'') 15.4909 73.8278)"
    by (rule reachable.add [OF reachable.empty])
  from reachable_current_false [OF r] r show ?thesis
    by (simp add: waypoints_addWaypointToMission waypoints_createEmptyMission)
qed

text \<open>
  C9. The four operations of the mission model never fail on a well-formed mission (one
  whose object graph reads as a \<open>Mission\<close> value) and any coordinates: each returns, and
  what it returns reads as the value the operation computes. In particular
  \<open>missionToMavlinkFormat\<close> of a mission without waypoints returns an empty array.
\<close>

theorem mission_operations_total:
  assumes "read_mission st m = Some M"
  shows "(\<exists>m0 st0. createEmptyMission_st now st = (m0, st0) \<and>
            read_mission st0 m0 = Some (createEmptyMission now)) \<and>
         (\<exists>a st1. createWaypoint_st s lat lon st = (a, st1) \<and>
            get_waypoint st1 a = Some (createWaypoint s lat lon)) \<and>
         (\<exists>m' st'. addWaypointToMission_st now m lat lon st = Some (m', st') \<and>
            read_mission st' m' = Some (addWaypointToMission now M lat lon)) \<and>
         (\<exists>a st'. missionToMavlinkFormat_st m st = Some (a, st') \<and>
            read_waypoint_array st' a = Some (missionToMavlinkFormat M)) \<and>
         (waypoints M = [] \<longrightarrow>
            missionToMavlinkFormat M = [] \<and>
            (\<exists>a st'. missionToMavlinkFormat_st m st = Some (a, st') \<and>
               get_array st' a = Some []))"
proof -
  obtain m0 st0 where c: "createEmptyMission_st now st = (m0, st0)"
    by (cases "createEmptyMission_st now st")
  obtain a1 st1 where w: "createWaypoint_st s lat lon st = (a1, st1)"
    by (cases "createWaypoint_st s lat lon st")
  from missionToMavlinkFormat_st_refines [OF assms] obtain a st' where
    f: "missionToMavlinkFormat_st m st = Some (a, st')"
       "read_waypoint_array st' a = Some (missionToMavlinkFormat M)"
    by blast
  have e: "get_array st' a = Some []" if "waypoints M = []"
  proof -
    from that have "missionToMavlinkFormat M = []" by (simp add: missionToMavlinkFormat_def)
    with f(2) obtain es where es: "get_array st' a = Some es" "read_waypoints st' es = Some []"
      by (auto simp: read_waypoint_array_def split: bind_splits)
    from read_waypoints_length [OF es(2)] es(1) show ?thesis by simp
  qed
  have "\<exists>m0 st0. createEmptyMission_st now st = (m0, st0) \<and>
            read_mission st0 m0 = Some (createEmptyMission now)"
    using c createEmptyMission_st_refines [OF c] by blast
  moreover have "\<exists>a st1. createWaypoint_st s lat lon st = (a, st1) \<and>
            get_waypoint st1 a = Some (createWaypoint s lat lon)"
    using w createWaypoint_st_refines [OF w] by blast
  moreover have "\<exists>m' st'. addWaypointToMission_st now m lat lon st = Some (m', st') \<and>
            read_mission st' m' = Some (addWaypointToMission now M lat lon)"
    using addWaypointToMission_st_refines [OF assms, of now lat lon] by blast
  moreover have "\<exists>a st'. missionToMavlinkFormat_st m st = Some (a, st') \<and>
            read_waypoint_array st' a = Some (missionToMavlinkFormat M)"
    using f by blast
  moreover have "waypoints M = [] \<longrightarrow>
            missionToMavlinkFormat M = [] \<and>
            (\<exists>a st'. missionToMavlinkFormat_st m st = Some (a, st') \<and>
               get_array st' a = Some [])"
    using f(1) e by (auto simp: missionToMavlinkFormat_def)
  ultimately show ?thesis by blast
qed

theorem mission_operations_total_witness:
  "read_mission (snd (createEmptyMission_st ''t0'' [])) 2 = Some (createEmptyMission ''t0'') \<and>
   waypoints (createEmptyMission ''t0'') = [] \<and>
   missionToMavlinkFormat (createEmptyMission ''t0'') = [] \<and>
   (\<exists>a st'. missionToMavlinkFormat_st 2 (snd (createEmptyMission_st ''t0'' [])) = Some (a, st') \<and>
      get_array st' a = Some []) \<and>
   (\<exists>m' st'. addWaypointToMission_st ''t1'' 2 15.4909 73.8278 (snd (createEmptyMission_st ''t0'' []))
        = Some (m', st') \<and>
      read_mission st' m' =
        Some (addWaypointToMission ''t1'' (createEmptyMission ''t0'') 15.4909 73.8278))"
proof -
  have h: "read_mission (snd (createEmptyMission_st ''t0'' [])) 2 = Some (createEmptyMission ''t0'')"
    by (simp add: createEmptyMission_st_def alloc_def read_mission_def read_waypoint_array_def
        get_mission_def get_array_def get_metadata_def deref_def createEmptyMission_def)
  have e: "waypoints (createEmptyMission ''t0'') = []" by (simp add: createEmptyMission_def)
  from mission_operations_total [OF h, of "''t1''" 0 "15.4909" "73.8278"] h e
  show ?thesis by simp
qed

text \<open>
  C10. The mission \<open>addWaypointToMission\<close> returns for a mission of \<open>K\<close> waypoints has
  \<open>K + 1\<close> waypoints, and its waypoint at every index \<open>i < K\<close> equals the input's waypoint
  at \<open>i\<close> in every field.
\<close>

theorem addWaypointToMission_keeps_existing:
  "length (waypoints (addWaypointToMission now M lat lon)) = length (waypoints M) + 1 \<and>
   (\<forall>i < length (waypoints M).
      waypoints (addWaypointToMission now M lat lon) ! i = waypoints M ! i)"
  by (simp add: waypoints_addWaypointToMission nth_append)

theorem addWaypointToMission_keeps_existing_witness:
  "length (waypoints (addWaypointToMission ''t3'' example_mission 15.6 74)) = 3 \<and>
   (1::nat) < length (waypoints example_mission) \<and>
   waypoints (addWaypointToMission ''t3'' example_mission 15.6 74) ! 1 =
     (createWaypoint 1 15.5 73.9) \<lparr> current := True \<rparr>"
  using addWaypointToMission_keeps_existing [of "''t3''" example_mission "15.6" 74]
  by (simp add: example_mission_def)

end
